theory Spec2Isabelle
  imports Complex_Main
begin

section \<open>LayerDrawable: drawing a layer onto a canvas\<close>

text \<open>
  A shallow embedding of \<^verbatim>\<open>libs/hwui/pipeline/skia/LayerDrawable.cpp\<close>: the two functions
  \<^verbatim>\<open>LayerDrawable::onDraw\<close> and \<^verbatim>\<open>LayerDrawable::DrawLayer\<close>.

  The file draws through the Skia library (\<^verbatim>\<open>SkMatrix\<close>, \<^verbatim>\<open>SkRect\<close>, \<^verbatim>\<open>SkPaint\<close>,
  \<^verbatim>\<open>SkCanvas\<close>), which is not part of it. The matrix and rectangle operations it calls are
  a parameter of the model (the record \<open>Skia\<close> below), so that a theorem about the control
  flow of \<^verbatim>\<open>DrawLayer\<close> holds for whatever those operations compute, rounding included.
  Where a property is about the values of the matrices of a particular layer, it is
  evaluated on the instance \<open>exact\<close>, which gives the operations their documented meaning
  in exact rational arithmetic.
\<close>

subsection \<open>Handles and enumerations\<close>

text \<open>Pointers to objects the file never looks into are opaque handles; a null pointer is
  \<open>None\<close>.\<close>

type_synonym GrContext = nat
type_synonym SkImage = nat
type_synonym SkColorFilter = nat

datatype SkBlendMode =
  kClear | kSrc | kDst | kSrcOver | kDstOver | kSrcIn | kDstIn | kSrcOut | kDstOut
  | kSrcATop | kDstATop | kXor | kPlus | kModulate | kScreen | kOverlay | kDarken
  | kLighten | kColorDodge | kColorBurn | kHardLight | kSoftLight | kDifference
  | kExclusion | kMultiply | kHue | kSaturation | kColor | kLuminosity

datatype SkFilterQuality =
  kNone_SkFilterQuality | kLow_SkFilterQuality | kMedium_SkFilterQuality | kHigh_SkFilterQuality

datatype SrcRectConstraint = kStrict_SrcRectConstraint | kFast_SrcRectConstraint

subsection \<open>The paint\<close>

text \<open>\<^verbatim>\<open>SkPaint\<close>, as far as \<^verbatim>\<open>DrawLayer\<close> sets it: a default-constructed paint is opaque,
  \<^verbatim>\<open>kSrcOver\<close>, without colour filter and with filter quality \<^verbatim>\<open>kNone\<close>; each setter stores
  its argument. \<^verbatim>\<open>setAlpha\<close> expects a value from 0 to 255, which is what a layer's alpha is;
  the model stores the argument as it is.\<close>

record SkPaint =
  paintAlpha :: int
  paintBlendMode :: SkBlendMode
  paintColorFilter :: "SkColorFilter option"
  paintFilterQuality :: SkFilterQuality

definition SkPaint_new :: SkPaint where
  "SkPaint_new = \<lparr>paintAlpha = 255, paintBlendMode = kSrcOver, paintColorFilter = None,
     paintFilterQuality = kNone_SkFilterQuality\<rparr>"

definition setAlpha :: "SkPaint \<Rightarrow> int \<Rightarrow> SkPaint" where
  "setAlpha paint a = paint\<lparr>paintAlpha := a\<rparr>"

definition setBlendMode :: "SkPaint \<Rightarrow> SkBlendMode \<Rightarrow> SkPaint" where
  "setBlendMode paint m = paint\<lparr>paintBlendMode := m\<rparr>"

definition setColorFilter :: "SkPaint \<Rightarrow> SkColorFilter option \<Rightarrow> SkPaint" where
  "setColorFilter paint f = paint\<lparr>paintColorFilter := f\<rparr>"

definition setFilterQuality :: "SkPaint \<Rightarrow> SkFilterQuality \<Rightarrow> SkPaint" where
  "setFilterQuality paint q = paint\<lparr>paintFilterQuality := q\<rparr>"

subsection \<open>The layer\<close>

text \<open>What \<^verbatim>\<open>DrawLayer\<close> reads of a \<^verbatim>\<open>Layer\<close>, one field for each getter it calls.
  \<open>getWidth\<close> and \<open>getHeight\<close> are the values held by the locals \<^verbatim>\<open>const int layerWidth\<close>
  and \<^verbatim>\<open>const int layerHeight\<close>; \<open>getImage\<close> is \<open>None\<close> when the \<^verbatim>\<open>sk_sp<SkImage>\<close> is
  null.\<close>

record 'm Layer =
  getTransform :: 'm
  getTexTransform :: 'm
  getImage :: "SkImage option"
  getWidth :: int
  getHeight :: int
  getAlpha :: int
  getMode :: SkBlendMode
  getColorSpaceWithFilter :: "SkColorFilter option"
  getForceFilter :: bool

subsection \<open>The canvas\<close>

text \<open>The canvas is the sink of the draw: the model keeps the GPU context it reports and the
  sequence of calls it has received, oldest first.\<close>

datatype ('s, 'm, 'r) CanvasCall =
  Save
  | ConcatMatrix 'm
  | Restore
  | DrawImage SkImage 's 's SkPaint
  | DrawImageRect SkImage 'r 'r SkPaint SrcRectConstraint

record ('s, 'm, 'r) SkCanvas =
  getGrContext :: "GrContext option"
  calls :: "('s, 'm, 'r) CanvasCall list"

definition save :: "('s, 'm, 'r) SkCanvas \<Rightarrow> ('s, 'm, 'r) SkCanvas" where
  "save canvas = canvas\<lparr>calls := calls canvas @ [Save]\<rparr>"

definition concat_matrix :: "('s, 'm, 'r) SkCanvas \<Rightarrow> 'm \<Rightarrow> ('s, 'm, 'r) SkCanvas" where
  "concat_matrix canvas m = canvas\<lparr>calls := calls canvas @ [ConcatMatrix m]\<rparr>"

definition restore :: "('s, 'm, 'r) SkCanvas \<Rightarrow> ('s, 'm, 'r) SkCanvas" where
  "restore canvas = canvas\<lparr>calls := calls canvas @ [Restore]\<rparr>"

definition drawImage ::
  "('s, 'm, 'r) SkCanvas \<Rightarrow> SkImage \<Rightarrow> 's \<Rightarrow> 's \<Rightarrow> SkPaint \<Rightarrow> ('s, 'm, 'r) SkCanvas" where
  "drawImage canvas img x y paint = canvas\<lparr>calls := calls canvas @ [DrawImage img x y paint]\<rparr>"

definition drawImageRect ::
  "('s, 'm, 'r) SkCanvas \<Rightarrow> SkImage \<Rightarrow> 'r \<Rightarrow> 'r \<Rightarrow> SkPaint \<Rightarrow> SrcRectConstraint
     \<Rightarrow> ('s, 'm, 'r) SkCanvas" where
  "drawImageRect canvas img src dst paint c =
     canvas\<lparr>calls := calls canvas @ [DrawImageRect img src dst paint c]\<rparr>"

fun is_save :: "('s, 'm, 'r) CanvasCall \<Rightarrow> bool" where
  "is_save Save = True"
| "is_save _ = False"

fun is_concat :: "('s, 'm, 'r) CanvasCall \<Rightarrow> bool" where
  "is_concat (ConcatMatrix _) = True"
| "is_concat _ = False"

fun is_restore :: "('s, 'm, 'r) CanvasCall \<Rightarrow> bool" where
  "is_restore Restore = True"
| "is_restore _ = False"

fun is_draw :: "('s, 'm, 'r) CanvasCall \<Rightarrow> bool" where
  "is_draw (DrawImage _ _ _ _) = True"
| "is_draw (DrawImageRect _ _ _ _ _) = True"
| "is_draw _ = False"

fun is_drawImageRect :: "('s, 'm, 'r) CanvasCall \<Rightarrow> bool" where
  "is_drawImageRect (DrawImageRect _ _ _ _ _) = True"
| "is_drawImageRect _ = False"

subsection \<open>The Skia operations \<^verbatim>\<open>DrawLayer\<close> calls\<close>

text \<open>The scalar, matrix and rectangle types of Skia (\<open>'s\<close>, \<open>'m\<close>, \<open>'r\<close>) and the operations
  on them that the file calls. \<open>SkIntToScalar\<close> is the conversion of an \<^verbatim>\<open>int\<close> to
  \<^verbatim>\<open>SkScalar\<close> that C++ inserts, \<open>SkScalarDiv\<close> the division of \<^verbatim>\<open>1.0f / layerWidth\<close>.
  \<open>invert\<close> is \<open>None\<close> where \<^verbatim>\<open>SkMatrix::invert\<close> returns false (it then leaves its output
  argument alone).\<close>

record ('s, 'm, 'r) Skia =
  SkIntToScalar :: "int \<Rightarrow> 's"
  SkScalarDiv :: "'s \<Rightarrow> 's \<Rightarrow> 's"
  setAll :: "'s \<Rightarrow> 's \<Rightarrow> 's \<Rightarrow> 's \<Rightarrow> 's \<Rightarrow> 's \<Rightarrow> 's \<Rightarrow> 's \<Rightarrow> 's \<Rightarrow> 'm"
  preConcat :: "'m \<Rightarrow> 'm \<Rightarrow> 'm"
  preScale :: "'m \<Rightarrow> 's \<Rightarrow> 's \<Rightarrow> 'm"
  postScale :: "'m \<Rightarrow> 's \<Rightarrow> 's \<Rightarrow> 'm"
  invert :: "'m \<Rightarrow> 'm option"
  Concat :: "'m \<Rightarrow> 'm \<Rightarrow> 'm"
  isIdentity :: "'m \<Rightarrow> bool"
  MakeIWH :: "int \<Rightarrow> int \<Rightarrow> 'r"
  mapRect :: "'m \<Rightarrow> 'r \<Rightarrow> 'r"

subsection \<open>\<^verbatim>\<open>DrawLayer\<close>\<close>

text \<open>Lines 52-53: \<^verbatim>\<open>flipV.setAll(1, 0, 0, 0, -1, 1, 0, 0, 1)\<close>.\<close>

definition flipV :: "('s, 'm, 'r) Skia \<Rightarrow> 'm" where
  "flipV sk =
     (let c = SkIntToScalar sk
      in setAll sk (c 1) (c 0) (c 0) (c 0) (c (- 1)) (c 1) (c 0) (c 0) (c 1))"

text \<open>Lines 48-56: the local \<^verbatim>\<open>textureMatrixInv\<close> when it is inverted.\<close>

definition textureMatrixInv :: "('s, 'm, 'r) Skia \<Rightarrow> 'm Layer \<Rightarrow> 'm" where
  "textureMatrixInv sk layer =
     (let layerWidth = getWidth layer;
          layerHeight = getHeight layer;
          m0 = getTexTransform layer;
          m1 = preConcat sk m0 (flipV sk);
          m2 = preScale sk m1
                 (SkScalarDiv sk (SkIntToScalar sk 1) (SkIntToScalar sk layerWidth))
                 (SkScalarDiv sk (SkIntToScalar sk 1) (SkIntToScalar sk layerHeight))
      in postScale sk m2 (SkIntToScalar sk layerWidth) (SkIntToScalar sk layerHeight))"

text \<open>Lines 58-60 and 86-88: invert, and keep the matrix itself when it cannot be
  inverted.\<close>

definition invertOrSelf :: "('s, 'm, 'r) Skia \<Rightarrow> 'm \<Rightarrow> 'm" where
  "invertOrSelf sk m = (case invert sk m of None \<Rightarrow> m | Some inverse_m \<Rightarrow> inverse_m)"

text \<open>Lines 57-60: the local \<^verbatim>\<open>textureMatrix\<close>.\<close>

definition textureMatrix :: "('s, 'm, 'r) Skia \<Rightarrow> 'm Layer \<Rightarrow> 'm" where
  "textureMatrix sk layer = invertOrSelf sk (textureMatrixInv sk layer)"

text \<open>Lines 62-69: the local \<^verbatim>\<open>matrix\<close>.\<close>

definition finalMatrix :: "('s, 'm, 'r) Skia \<Rightarrow> 'm Layer \<Rightarrow> 'r option \<Rightarrow> 'm" where
  "finalMatrix sk layer dstRect =
     (case dstRect of
        Some _ \<Rightarrow> textureMatrix sk layer
      | None \<Rightarrow> Concat sk (getTransform layer) (textureMatrix sk layer))"

text \<open>Lines 71-77: the local \<^verbatim>\<open>paint\<close>.\<close>

definition layerPaint :: "'m Layer \<Rightarrow> SkPaint" where
  "layerPaint layer =
     (let paint = SkPaint_new;
          paint = setAlpha paint (getAlpha layer);
          paint = setBlendMode paint (getMode layer);
          paint = setColorFilter paint (getColorSpaceWithFilter layer)
      in if getForceFilter layer then setFilterQuality paint kLow_SkFilterQuality else paint)"

text \<open>Lines 35-105. The result is the canvas after the call and the value returned.\<close>

definition DrawLayer ::
  "('s, 'm, 'r) Skia \<Rightarrow> GrContext option \<Rightarrow> ('s, 'm, 'r) SkCanvas \<Rightarrow> 'm Layer \<Rightarrow> 'r option
     \<Rightarrow> ('s, 'm, 'r) SkCanvas \<times> bool" where
  "DrawLayer sk context canvas layer dstRect =
     (if context = None then (canvas, False)
      else
        let layerImage = getImage layer;
            layerWidth = getWidth layer;
            layerHeight = getHeight layer
        in case layerImage of
             None \<Rightarrow> (canvas, layerImage \<noteq> None)
           | Some img \<Rightarrow>
               let matrix = finalMatrix sk layer dstRect;
                   paint = layerPaint layer;
                   nonIdentityMatrix = \<not> isIdentity sk matrix;
                   canvas = (if nonIdentityMatrix then concat_matrix (save canvas) matrix
                             else canvas);
                   canvas =
                     (case dstRect of
                        Some dst \<Rightarrow>
                          let matrixInv = invertOrSelf sk matrix;
                              srcRect = mapRect sk matrixInv (MakeIWH sk layerWidth layerHeight);
                              skiaDestRect = mapRect sk matrixInv dst
                          in drawImageRect canvas img srcRect skiaDestRect paint
                               kFast_SrcRectConstraint
                      | None \<Rightarrow>
                          drawImage canvas img (SkIntToScalar sk 0) (SkIntToScalar sk 0) paint);
                   canvas = (if nonIdentityMatrix then restore canvas else canvas)
               in (canvas, layerImage \<noteq> None))"

text \<open>The calls a canvas has received since an earlier state of it.\<close>

definition emitted ::
  "('s, 'm, 'r) SkCanvas \<Rightarrow> ('s, 'm, 'r) SkCanvas \<Rightarrow> ('s, 'm, 'r) CanvasCall list" where
  "emitted before after = drop (length (calls before)) (calls after)"

subsection \<open>\<^verbatim>\<open>onDraw\<close>\<close>

text \<open>Lines 28-33. \<open>backingLayer\<close> is what \<^verbatim>\<open>mLayerUpdater->backingLayer()\<close> returns, \<open>None\<close>
  for a null pointer. The call of \<^verbatim>\<open>DrawLayer\<close> leaves out \<^verbatim>\<open>dstRect\<close>, whose default
  argument is null, and drops the result.\<close>

definition onDraw ::
  "('s, 'm, 'r) Skia \<Rightarrow> 'm Layer option \<Rightarrow> ('s, 'm, 'r) SkCanvas \<Rightarrow> ('s, 'm, 'r) SkCanvas" where
  "onDraw sk backingLayer canvas =
     (case backingLayer of
        None \<Rightarrow> canvas
      | Some layer \<Rightarrow> fst (DrawLayer sk (getGrContext canvas) canvas layer None))"

subsection \<open>The Skia operations in exact arithmetic\<close>

text \<open>Modelled from the spec: the Skia matrix library (\<^verbatim>\<open>SkMatrix\<close>, \<^verbatim>\<open>SkRect\<close>) is not among
  the sources. The spec names the operations (pre-concatenate, pre-scale, post-scale, invert,
  which fails on a zero determinant, concatenate, map a rectangle); they are given here the
  meaning the Skia API documents for them, over the rationals in place of the 32-bit floats of
  \<^verbatim>\<open>SkScalar\<close>: no rounding, no infinities, no tolerance in the test for invertibility.
  The instance therefore computes what the code computes only where no intermediate value is
  rounded. It serves to evaluate the general theorems, and to refute a claim, at concrete
  layers whose matrices have small integer or dyadic entries, which 32-bit floats hold
  exactly; what is proved of every layer is proved for every instance of the operations.

  A matrix is its nine entries in row-major order, named as Skia's indices are.\<close>

record SkMatrix =
  kMScaleX :: rat
  kMSkewX :: rat
  kMTransX :: rat
  kMSkewY :: rat
  kMScaleY :: rat
  kMTransY :: rat
  kMPersp0 :: rat
  kMPersp1 :: rat
  kMPersp2 :: rat

record SkRect =
  fLeft :: rat
  fTop :: rat
  fRight :: rat
  fBottom :: rat

definition exact_setAll ::
  "rat \<Rightarrow> rat \<Rightarrow> rat \<Rightarrow> rat \<Rightarrow> rat \<Rightarrow> rat \<Rightarrow> rat \<Rightarrow> rat \<Rightarrow> rat \<Rightarrow> SkMatrix" where
  "exact_setAll scaleX skewX transX skewY scaleY transY persp0 persp1 persp2 =
     \<lparr>kMScaleX = scaleX, kMSkewX = skewX, kMTransX = transX,
      kMSkewY = skewY, kMScaleY = scaleY, kMTransY = transY,
      kMPersp0 = persp0, kMPersp1 = persp1, kMPersp2 = persp2\<rparr>"

definition SkMatrix_I :: SkMatrix where
  "SkMatrix_I = exact_setAll 1 0 0 0 1 0 0 0 1"

definition exact_setScale :: "rat \<Rightarrow> rat \<Rightarrow> SkMatrix" where
  "exact_setScale sx sy = exact_setAll sx 0 0 0 sy 0 0 0 1"

text \<open>\<^verbatim>\<open>SkMatrix::Concat(a, b)\<close> is the matrix product \<open>a * b\<close>: mapping a point by it maps the
  point by \<open>b\<close> first and by \<open>a\<close> second.\<close>

definition exact_Concat :: "SkMatrix \<Rightarrow> SkMatrix \<Rightarrow> SkMatrix" where
  "exact_Concat a b =
     \<lparr>kMScaleX = kMScaleX a * kMScaleX b + kMSkewX a * kMSkewY b + kMTransX a * kMPersp0 b,
      kMSkewX = kMScaleX a * kMSkewX b + kMSkewX a * kMScaleY b + kMTransX a * kMPersp1 b,
      kMTransX = kMScaleX a * kMTransX b + kMSkewX a * kMTransY b + kMTransX a * kMPersp2 b,
      kMSkewY = kMSkewY a * kMScaleX b + kMScaleY a * kMSkewY b + kMTransY a * kMPersp0 b,
      kMScaleY = kMSkewY a * kMSkewX b + kMScaleY a * kMScaleY b + kMTransY a * kMPersp1 b,
      kMTransY = kMSkewY a * kMTransX b + kMScaleY a * kMTransY b + kMTransY a * kMPersp2 b,
      kMPersp0 = kMPersp0 a * kMScaleX b + kMPersp1 a * kMSkewY b + kMPersp2 a * kMPersp0 b,
      kMPersp1 = kMPersp0 a * kMSkewX b + kMPersp1 a * kMScaleY b + kMPersp2 a * kMPersp1 b,
      kMPersp2 = kMPersp0 a * kMTransX b + kMPersp1 a * kMTransY b + kMPersp2 a * kMPersp2 b\<rparr>"

text \<open>\<^verbatim>\<open>m.preConcat(other)\<close> sets \<open>m\<close> to \<open>m * other\<close>; \<^verbatim>\<open>m.preScale(sx, sy)\<close> to \<open>m\<close> times
  the scaling by \<open>(sx, sy)\<close>; \<^verbatim>\<open>m.postScale(sx, sy)\<close> to that scaling times \<open>m\<close>.\<close>

definition exact_preConcat :: "SkMatrix \<Rightarrow> SkMatrix \<Rightarrow> SkMatrix" where
  "exact_preConcat m other = exact_Concat m other"

definition exact_preScale :: "SkMatrix \<Rightarrow> rat \<Rightarrow> rat \<Rightarrow> SkMatrix" where
  "exact_preScale m sx sy = exact_Concat m (exact_setScale sx sy)"

definition exact_postScale :: "SkMatrix \<Rightarrow> rat \<Rightarrow> rat \<Rightarrow> SkMatrix" where
  "exact_postScale m sx sy = exact_Concat (exact_setScale sx sy) m"

definition determinant :: "SkMatrix \<Rightarrow> rat" where
  "determinant m =
     kMScaleX m * (kMScaleY m * kMPersp2 m - kMTransY m * kMPersp1 m)
     - kMSkewX m * (kMSkewY m * kMPersp2 m - kMTransY m * kMPersp0 m)
     + kMTransX m * (kMSkewY m * kMPersp1 m - kMScaleY m * kMPersp0 m)"

text \<open>\<^verbatim>\<open>m.invert(&inverse)\<close>: false on a zero determinant, else the adjugate over the
  determinant.\<close>

definition exact_invert :: "SkMatrix \<Rightarrow> SkMatrix option" where
  "exact_invert m =
     (let d = determinant m
      in if d = 0 then None
         else Some
           \<lparr>kMScaleX = (kMScaleY m * kMPersp2 m - kMTransY m * kMPersp1 m) / d,
            kMSkewX = (kMTransX m * kMPersp1 m - kMSkewX m * kMPersp2 m) / d,
            kMTransX = (kMSkewX m * kMTransY m - kMTransX m * kMScaleY m) / d,
            kMSkewY = (kMTransY m * kMPersp0 m - kMSkewY m * kMPersp2 m) / d,
            kMScaleY = (kMScaleX m * kMPersp2 m - kMTransX m * kMPersp0 m) / d,
            kMTransY = (kMTransX m * kMSkewY m - kMScaleX m * kMTransY m) / d,
            kMPersp0 = (kMSkewY m * kMPersp1 m - kMScaleY m * kMPersp0 m) / d,
            kMPersp1 = (kMSkewX m * kMPersp0 m - kMScaleX m * kMPersp1 m) / d,
            kMPersp2 = (kMScaleX m * kMScaleY m - kMSkewX m * kMSkewY m) / d\<rparr>)"

definition exact_isIdentity :: "SkMatrix \<Rightarrow> bool" where
  "exact_isIdentity m = (m = SkMatrix_I)"

text \<open>\<^verbatim>\<open>m.mapXY(x, y)\<close>: the image of a point, divided by the third coordinate where that is
  not zero.\<close>

definition exact_mapXY :: "SkMatrix \<Rightarrow> rat \<Rightarrow> rat \<Rightarrow> rat \<times> rat" where
  "exact_mapXY m x y =
     (let x' = kMScaleX m * x + kMSkewX m * y + kMTransX m;
          y' = kMSkewY m * x + kMScaleY m * y + kMTransY m;
          z = kMPersp0 m * x + kMPersp1 m * y + kMPersp2 m;
          z = (if z = 0 then z else 1 / z)
      in (x' * z, y' * z))"

definition exact_MakeIWH :: "int \<Rightarrow> int \<Rightarrow> SkRect" where
  "exact_MakeIWH w h = \<lparr>fLeft = 0, fTop = 0, fRight = of_int w, fBottom = of_int h\<rparr>"

text \<open>\<^verbatim>\<open>m.mapRect(&rect)\<close>: the bounds of the images of the four corners.\<close>

definition exact_mapRect :: "SkMatrix \<Rightarrow> SkRect \<Rightarrow> SkRect" where
  "exact_mapRect m r =
     (let (x0, y0) = exact_mapXY m (fLeft r) (fTop r);
          (x1, y1) = exact_mapXY m (fRight r) (fTop r);
          (x2, y2) = exact_mapXY m (fRight r) (fBottom r);
          (x3, y3) = exact_mapXY m (fLeft r) (fBottom r)
      in \<lparr>fLeft = min (min x0 x1) (min x2 x3), fTop = min (min y0 y1) (min y2 y3),
          fRight = max (max x0 x1) (max x2 x3), fBottom = max (max y0 y1) (max y2 y3)\<rparr>)"

definition exact :: "(rat, SkMatrix, SkRect) Skia" where
  "exact =
     \<lparr>SkIntToScalar = of_int, SkScalarDiv = (/), setAll = exact_setAll,
      preConcat = exact_preConcat, preScale = exact_preScale, postScale = exact_postScale,
      invert = exact_invert, Concat = exact_Concat, isIdentity = exact_isIdentity,
      MakeIWH = exact_MakeIWH, mapRect = exact_mapRect\<rparr>"

subsection \<open>Example inputs\<close>

text \<open>The layer of the spec's round-trip scenario: 100 by 50, both transforms the identity,
  an image present. The other examples are variations of it.\<close>

definition layer_100x50 :: "SkMatrix Layer" where
  "layer_100x50 =
     \<lparr>getTransform = SkMatrix_I, getTexTransform = SkMatrix_I, getImage = Some 7,
      getWidth = 100, getHeight = 50, getAlpha = 128, getMode = kSrcOver,
      getColorSpaceWithFilter = None, getForceFilter = True\<rparr>"

text \<open>A texture transform with zero scale on the horizontal axis, and a layer that has it.\<close>

definition singular_layer :: "SkMatrix Layer" where
  "singular_layer = layer_100x50\<lparr>getTexTransform := exact_setScale 0 1\<rparr>"

text \<open>A layer whose texture transform is the vertical flip itself: its final matrix is the
  identity.\<close>

definition flipped_layer :: "SkMatrix Layer" where
  "flipped_layer = layer_100x50\<lparr>getTexTransform := exact_setAll 1 0 0 0 (- 1) 1 0 0 1\<rparr>"

text \<open>A 64 by 32 layer whose texture transform scales by \<open>(2, 4)\<close> and translates by
  \<open>(8, 16)\<close>: its pre-inversion matrix is invertible and is not its own inverse.\<close>

definition layer_64x32 :: "SkMatrix Layer" where
  "layer_64x32 =
     layer_100x50\<lparr>getTexTransform := exact_setAll 2 0 8 0 4 16 0 0 1, getWidth := 64,
       getHeight := 32\<rparr>"

definition empty_canvas :: "(rat, SkMatrix, SkRect) SkCanvas" where
  "empty_canvas = \<lparr>getGrContext = Some 1, calls = []\<rparr>"

definition rect_10x10 :: SkRect where
  "rect_10x10 = \<lparr>fLeft = 0, fTop = 0, fRight = 10, fBottom = 10\<rparr>"

text \<open>The singular layer again, placed by a horizontal scaling by two.\<close>

definition scaled_singular_layer :: "SkMatrix Layer" where
  "scaled_singular_layer = singular_layer\<lparr>getTransform := exact_setScale 2 1\<rparr>"

section \<open>Properties\<close>

subsection \<open>The shape of a call\<close>

lemmas canvas_defs = save_def concat_matrix_def restore_def drawImage_def drawImageRect_def

lemmas exact_defs = exact_def exact_setAll_def SkMatrix_I_def exact_setScale_def exact_Concat_def
  exact_preConcat_def exact_preScale_def exact_postScale_def determinant_def exact_invert_def
  exact_isIdentity_def exact_mapXY_def exact_MakeIWH_def exact_mapRect_def

lemmas layer_defs = flipV_def textureMatrixInv_def invertOrSelf_def textureMatrix_def
  finalMatrix_def

lemmas example_defs = layer_100x50_def singular_layer_def empty_canvas_def rect_10x10_def

lemma DrawLayer_null_context: "DrawLayer sk None canvas layer dstRect = (canvas, False)"
  by (simp add: DrawLayer_def)

lemma DrawLayer_no_image:
  "getImage layer = None \<Longrightarrow> DrawLayer sk context canvas layer dstRect = (canvas, False)"
  by (simp add: DrawLayer_def)

text \<open>With a context and an image, a call with a destination rectangle (a readback) and a
  call without one, in closed form.\<close>

lemma DrawLayer_readback:
  assumes "context \<noteq> None" and "getImage layer = Some img"
  shows "DrawLayer sk context canvas layer (Some dst) =
    (let matrix = textureMatrix sk layer;
         matrixInv = invertOrSelf sk matrix;
         d = DrawImageRect img
               (mapRect sk matrixInv (MakeIWH sk (getWidth layer) (getHeight layer)))
               (mapRect sk matrixInv dst) (layerPaint layer) kFast_SrcRectConstraint
     in (canvas\<lparr>calls := calls canvas @
           (if isIdentity sk matrix then [d] else [Save, ConcatMatrix matrix, d, Restore])\<rparr>,
         True))"
  using assms by (simp add: DrawLayer_def finalMatrix_def canvas_defs Let_def)

lemma DrawLayer_placed:
  assumes "context \<noteq> None" and "getImage layer = Some img"
  shows "DrawLayer sk context canvas layer None =
    (let matrix = Concat sk (getTransform layer) (textureMatrix sk layer);
         d = DrawImage img (SkIntToScalar sk 0) (SkIntToScalar sk 0) (layerPaint layer)
     in (canvas\<lparr>calls := calls canvas @
           (if isIdentity sk matrix then [d] else [Save, ConcatMatrix matrix, d, Restore])\<rparr>,
         True))"
  using assms by (simp add: DrawLayer_def finalMatrix_def canvas_defs Let_def)

lemma layerPaint_fields:
  "layerPaint layer =
     \<lparr>paintAlpha = getAlpha layer, paintBlendMode = getMode layer,
      paintColorFilter = getColorSpaceWithFilter layer,
      paintFilterQuality =
        (if getForceFilter layer then kLow_SkFilterQuality else kNone_SkFilterQuality)\<rparr>"
  by (simp add: layerPaint_def SkPaint_new_def setAlpha_def setBlendMode_def setColorFilter_def
      setFilterQuality_def)

subsection \<open>The value returned\<close>

text \<open>Claim C1. For every context, canvas, layer and optional destination rectangle,
  \<^verbatim>\<open>DrawLayer\<close> returns true exactly when the context is not null and the layer has an
  image. The value is the same whatever the Skia operations compute and whatever the canvas
  has received: the draw calls return nothing that could change it.\<close>

theorem DrawLayer_returns_image_presence:
  "snd (DrawLayer sk context canvas layer dstRect)
     = (context \<noteq> None \<and> getImage layer \<noteq> None)"
  by (cases dstRect; cases "getImage layer"; cases "context")
    (simp_all add: DrawLayer_null_context DrawLayer_no_image DrawLayer_readback
      DrawLayer_placed Let_def)

theorem DrawLayer_returns_image_presence_witness:
  "snd (DrawLayer exact (Some 1) empty_canvas layer_100x50 None)
   \<and> \<not> snd (DrawLayer exact None empty_canvas layer_100x50 None)
   \<and> \<not> snd (DrawLayer exact (Some 1) empty_canvas (layer_100x50\<lparr>getImage := None\<rparr>)
          (Some rect_10x10))"
  using DrawLayer_returns_image_presence [of exact "Some 1" empty_canvas layer_100x50 None]
    DrawLayer_returns_image_presence [of exact None empty_canvas layer_100x50 None]
    DrawLayer_returns_image_presence [of exact "Some 1" empty_canvas
      "layer_100x50\<lparr>getImage := None\<rparr>" "Some rect_10x10"]
  by (simp add: layer_100x50_def)

subsection \<open>Nothing to draw\<close>

text \<open>Claim C4. When the context is null or the layer has no image, \<^verbatim>\<open>DrawLayer\<close> returns
  false and the canvas is left as it was: it receives no save, concat, restore or draw
  call. A null context gives this whatever the layer holds.\<close>

theorem DrawLayer_nothing_to_draw:
  assumes "context = None \<or> getImage layer = None"
  shows "DrawLayer sk context canvas layer dstRect = (canvas, False)"
  using assms DrawLayer_null_context DrawLayer_no_image by blast

theorem DrawLayer_nothing_to_draw_witness:
  "DrawLayer exact None empty_canvas layer_100x50 None = (empty_canvas, False)
   \<and> DrawLayer exact (Some 1) empty_canvas (layer_100x50\<lparr>getImage := None\<rparr>) None
       = (empty_canvas, False)"
  using DrawLayer_nothing_to_draw [of None layer_100x50 exact empty_canvas None]
    DrawLayer_nothing_to_draw [of "Some 1" "layer_100x50\<lparr>getImage := None\<rparr>" exact
      empty_canvas None]
  by simp

subsection \<open>Matrices in exact arithmetic\<close>

text \<open>The product is associative with the identity as unit, and \<open>exact_invert\<close> returns a
  two-sided inverse exactly on a non-zero determinant.\<close>

lemma exact_Concat_assoc:
  "exact_Concat (exact_Concat a b) c = exact_Concat a (exact_Concat b c)"
  by (simp add: exact_Concat_def algebra_simps)

lemma exact_Concat_I_left: "exact_Concat SkMatrix_I m = m"
  by (simp add: exact_Concat_def SkMatrix_I_def exact_setAll_def)

lemma exact_Concat_I_right: "exact_Concat m SkMatrix_I = m"
  by (simp add: exact_Concat_def SkMatrix_I_def exact_setAll_def)

lemma exact_invert_None: "exact_invert m = None \<longleftrightarrow> determinant m = 0"
  by (simp add: exact_invert_def Let_def)

lemma exact_invert_right:
  assumes "exact_invert m = Some m'"
  shows "exact_Concat m m' = SkMatrix_I"
proof -
  have d: "determinant m \<noteq> 0"
    using assms by (auto simp: exact_invert_def Let_def split: if_splits)
  have m': "m' = \<lparr>kMScaleX = (kMScaleY m * kMPersp2 m - kMTransY m * kMPersp1 m) / determinant m,
            kMSkewX = (kMTransX m * kMPersp1 m - kMSkewX m * kMPersp2 m) / determinant m,
            kMTransX = (kMSkewX m * kMTransY m - kMTransX m * kMScaleY m) / determinant m,
            kMSkewY = (kMTransY m * kMPersp0 m - kMSkewY m * kMPersp2 m) / determinant m,
            kMScaleY = (kMScaleX m * kMPersp2 m - kMTransX m * kMPersp0 m) / determinant m,
            kMTransY = (kMTransX m * kMSkewY m - kMScaleX m * kMTransY m) / determinant m,
            kMPersp0 = (kMSkewY m * kMPersp1 m - kMScaleY m * kMPersp0 m) / determinant m,
            kMPersp1 = (kMSkewX m * kMPersp0 m - kMScaleX m * kMPersp1 m) / determinant m,
            kMPersp2 = (kMScaleX m * kMScaleY m - kMSkewX m * kMSkewY m) / determinant m\<rparr>"
    using assms d by (auto simp: exact_invert_def Let_def)
  show ?thesis
    using d unfolding m' exact_Concat_def SkMatrix_I_def exact_setAll_def
    apply (simp add: add_divide_distrib [symmetric])
    apply (simp add: determinant_def algebra_simps)
    done
qed

lemma exact_invert_left:
  assumes "exact_invert m = Some m'"
  shows "exact_Concat m' m = SkMatrix_I"
proof -
  have d: "determinant m \<noteq> 0"
    using assms by (auto simp: exact_invert_def Let_def split: if_splits)
  have m': "m' = \<lparr>kMScaleX = (kMScaleY m * kMPersp2 m - kMTransY m * kMPersp1 m) / determinant m,
            kMSkewX = (kMTransX m * kMPersp1 m - kMSkewX m * kMPersp2 m) / determinant m,
            kMTransX = (kMSkewX m * kMTransY m - kMTransX m * kMScaleY m) / determinant m,
            kMSkewY = (kMTransY m * kMPersp0 m - kMSkewY m * kMPersp2 m) / determinant m,
            kMScaleY = (kMScaleX m * kMPersp2 m - kMTransX m * kMPersp0 m) / determinant m,
            kMTransY = (kMTransX m * kMSkewY m - kMScaleX m * kMTransY m) / determinant m,
            kMPersp0 = (kMSkewY m * kMPersp1 m - kMScaleY m * kMPersp0 m) / determinant m,
            kMPersp1 = (kMSkewX m * kMPersp0 m - kMScaleX m * kMPersp1 m) / determinant m,
            kMPersp2 = (kMScaleX m * kMScaleY m - kMSkewX m * kMSkewY m) / determinant m\<rparr>"
    using assms d by (auto simp: exact_invert_def Let_def)
  show ?thesis
    using d unfolding m' exact_Concat_def SkMatrix_I_def exact_setAll_def
    apply (simp add: add_divide_distrib [symmetric])
    apply (simp add: determinant_def algebra_simps)
    done
qed

lemma exact_sel:
  "invert exact = exact_invert" "Concat exact = exact_Concat"
  "isIdentity exact = exact_isIdentity" "mapRect exact = exact_mapRect"
  "MakeIWH exact = exact_MakeIWH" "SkIntToScalar exact = of_int"
  by (simp_all add: exact_def)

lemma textureMatrix_ignores_transform:
  "textureMatrix sk (layer\<lparr>getTransform := L\<rparr>) = textureMatrix sk layer"
  by (simp add: textureMatrix_def textureMatrixInv_def)

text \<open>The matrices of the example layers.\<close>

lemma preinv_100x50:
  "textureMatrixInv exact layer_100x50 = exact_setAll 1 0 0 0 (- 1) 50 0 0 1"
  by (simp add: example_defs layer_defs exact_defs Let_def)

lemma singular_preinv:
  "textureMatrixInv exact singular_layer = exact_setAll 0 0 0 0 (- 1) 50 0 0 1"
  by (simp add: example_defs layer_defs exact_defs Let_def)

lemma final_flipped: "finalMatrix exact flipped_layer None = SkMatrix_I"
  by (simp add: flipped_layer_def example_defs layer_defs exact_defs Let_def)

lemma final_100x50: "finalMatrix exact layer_100x50 None = exact_setAll 1 0 0 0 (- 1) 50 0 0 1"
  by (simp add: example_defs layer_defs exact_defs Let_def)

subsection \<open>The texture matrix\<close>

text \<open>Claim C2, amended. For every layer and every instance of the Skia operations, so
  for the code's own float arithmetic: the pre-inversion texture matrix is the layer's
  texture transform, pre-concatenated with the matrix set to \<open>[[1,0,0],[0,-1,1],[0,0,1]]\<close>,
  then pre-scaled by \<open>(1/width, 1/height)\<close>, then post-scaled by \<open>(width, height)\<close>. The
  forward texture matrix is the inverse of that result as \<^verbatim>\<open>SkMatrix::invert\<close> returns it
  when the inversion succeeds, and is that result itself, not inverted, when the inversion
  fails. The flip touches the texture transform only: the texture matrix does not depend on
  the placement transform, which enters the final matrix as it is, through
  \<^verbatim>\<open>SkMatrix::Concat\<close>, or not at all.\<close>

theorem texture_matrix_flip_scale_invert:
  "textureMatrixInv sk layer =
     postScale sk
       (preScale sk
          (preConcat sk (getTexTransform layer)
             (setAll sk (SkIntToScalar sk 1) (SkIntToScalar sk 0) (SkIntToScalar sk 0)
                (SkIntToScalar sk 0) (SkIntToScalar sk (- 1)) (SkIntToScalar sk 1)
                (SkIntToScalar sk 0) (SkIntToScalar sk 0) (SkIntToScalar sk 1)))
          (SkScalarDiv sk (SkIntToScalar sk 1) (SkIntToScalar sk (getWidth layer)))
          (SkScalarDiv sk (SkIntToScalar sk 1) (SkIntToScalar sk (getHeight layer))))
       (SkIntToScalar sk (getWidth layer)) (SkIntToScalar sk (getHeight layer))
   \<and> (case invert sk (textureMatrixInv sk layer) of
         Some m \<Rightarrow> textureMatrix sk layer = m
       | None \<Rightarrow> textureMatrix sk layer = textureMatrixInv sk layer)
   \<and> textureMatrix sk (layer\<lparr>getTransform := L\<rparr>) = textureMatrix sk layer
   \<and> finalMatrix sk layer None = Concat sk (getTransform layer) (textureMatrix sk layer)
   \<and> finalMatrix sk layer (Some dst) = textureMatrix sk layer"
proof -
  have "case invert sk (textureMatrixInv sk layer) of
         Some m \<Rightarrow> textureMatrix sk layer = m
       | None \<Rightarrow> textureMatrix sk layer = textureMatrixInv sk layer"
    by (simp add: textureMatrix_def invertOrSelf_def split: option.split)
  then show ?thesis
    by (simp add: textureMatrixInv_def flipV_def Let_def finalMatrix_def
        textureMatrix_ignores_transform)
qed

lemma preinv_64x32:
  "textureMatrixInv exact layer_64x32 = exact_setAll 2 0 512 0 (- 4) 640 0 0 1"
  by (simp add: layer_64x32_def example_defs layer_defs exact_defs Let_def)

theorem texture_matrix_flip_scale_invert_witness:
  "textureMatrixInv exact layer_64x32 = exact_setAll 2 0 512 0 (- 4) 640 0 0 1
   \<and> textureMatrix exact layer_64x32 = exact_setAll (1 / 2) 0 (- 256) 0 (- (1 / 4)) 160 0 0 1
   \<and> exact_Concat (textureMatrix exact layer_64x32) (textureMatrixInv exact layer_64x32)
       = SkMatrix_I
   \<and> exact_Concat (textureMatrixInv exact layer_64x32) (textureMatrix exact layer_64x32)
       = SkMatrix_I
   \<and> textureMatrix exact singular_layer = exact_setAll 0 0 0 0 (- 1) 50 0 0 1"
proof -
  have i: "invert exact (exact_setAll 2 0 512 0 (- 4) 640 0 0 1)
      = Some (exact_setAll (1 / 2) 0 (- 256) 0 (- (1 / 4)) 160 0 0 1)"
    by (simp add: exact_defs)
  have n: "invert exact (exact_setAll 0 0 0 0 (- 1) 50 0 0 1) = None"
    by (simp add: exact_defs)
  from texture_matrix_flip_scale_invert [of exact layer_64x32 SkMatrix_I rect_10x10]
  have "case invert exact (textureMatrixInv exact layer_64x32) of
         Some m \<Rightarrow> textureMatrix exact layer_64x32 = m
       | None \<Rightarrow> textureMatrix exact layer_64x32 = textureMatrixInv exact layer_64x32"
    by blast
  then have t: "textureMatrix exact layer_64x32
      = exact_setAll (1 / 2) 0 (- 256) 0 (- (1 / 4)) 160 0 0 1"
    by (simp add: preinv_64x32 i)
  from texture_matrix_flip_scale_invert [of exact singular_layer SkMatrix_I rect_10x10]
  have "case invert exact (textureMatrixInv exact singular_layer) of
         Some m \<Rightarrow> textureMatrix exact singular_layer = m
       | None \<Rightarrow> textureMatrix exact singular_layer = textureMatrixInv exact singular_layer"
    by blast
  then have s: "textureMatrix exact singular_layer = exact_setAll 0 0 0 0 (- 1) 50 0 0 1"
    by (simp add: singular_preinv n)
  have l: "exact_Concat (exact_setAll (1 / 2) 0 (- 256) 0 (- (1 / 4)) 160 0 0 1)
      (exact_setAll 2 0 512 0 (- 4) 640 0 0 1) = SkMatrix_I"
    and r: "exact_Concat (exact_setAll 2 0 512 0 (- 4) 640 0 0 1)
      (exact_setAll (1 / 2) 0 (- 256) 0 (- (1 / 4)) 160 0 0 1) = SkMatrix_I"
    by (simp_all add: exact_defs)
  show ?thesis
    by (simp add: preinv_64x32 t s l r)
qed

text \<open>The claim as stated, that the forward texture matrix of every layer with an image is
  the inverse of the pre-inversion matrix, fails for the layer whose texture transform has
  zero horizontal scale: the inversion fails, lines 58-60 keep the matrix as it is, and its
  product with itself is not the identity.\<close>

theorem texture_matrix_not_inverse_counterexample:
  "getImage singular_layer = Some 7
   \<and> 0 < getWidth singular_layer \<and> 0 < getHeight singular_layer
   \<and> exact_invert (textureMatrixInv exact singular_layer) = None
   \<and> textureMatrix exact singular_layer = textureMatrixInv exact singular_layer
   \<and> exact_Concat (textureMatrix exact singular_layer) (textureMatrixInv exact singular_layer)
       \<noteq> SkMatrix_I"
proof -
  have a: "exact_invert (exact_setAll 0 0 0 0 (- 1) 50 0 0 1) = None"
    by (simp add: exact_defs)
  have b: "textureMatrix exact singular_layer = exact_setAll 0 0 0 0 (- 1) 50 0 0 1"
    by (simp add: textureMatrix_def invertOrSelf_def singular_preinv)
      (simp add: exact_def a)
  have c: "exact_Concat (exact_setAll 0 0 0 0 (- 1) 50 0 0 1)
      (exact_setAll 0 0 0 0 (- 1) 50 0 0 1) \<noteq> SkMatrix_I"
    by (simp add: exact_defs)
  show ?thesis
    by (simp add: b singular_preinv a c) (simp add: example_defs)
qed

subsection \<open>The final matrix\<close>

text \<open>Claim C3, amended. For every layer and every instance of the Skia operations: with
  a destination rectangle the final matrix is the texture matrix alone, the placement
  transform left out; without one it is \<^verbatim>\<open>SkMatrix::Concat(layerTransform, textureMatrix)\<close>,
  the placement transform concatenated with the texture matrix. The two final matrices are
  equal when the placement transform is the identity, in that concatenating it leaves every
  matrix as it is; they differ exactly when concatenating the placement transform changes
  the texture matrix, which a placement transform other than the identity need not do.

  In the product the placement transform is written first; a point is mapped by the texture
  matrix first and by the placement transform second, as the last example of the witness
  shows.\<close>

theorem final_matrix_by_mode:
  "finalMatrix sk layer (Some dst) = textureMatrix sk layer
   \<and> finalMatrix sk layer None = Concat sk (getTransform layer) (textureMatrix sk layer)
   \<and> ((\<forall>m. Concat sk (getTransform layer) m = m) \<longrightarrow>
        finalMatrix sk layer None = finalMatrix sk layer (Some dst))
   \<and> (finalMatrix sk layer None \<noteq> finalMatrix sk layer (Some dst))
       = (Concat sk (getTransform layer) (textureMatrix sk layer) \<noteq> textureMatrix sk layer)"
  by (simp add: finalMatrix_def)

theorem final_matrix_by_mode_witness:
  "finalMatrix exact layer_100x50 None = finalMatrix exact layer_100x50 (Some rect_10x10)
   \<and> finalMatrix exact (layer_100x50\<lparr>getTransform := exact_setScale 2 1\<rparr>) None
       = exact_setAll 2 0 0 0 (- 1) 50 0 0 1
   \<and> finalMatrix exact (layer_100x50\<lparr>getTransform := exact_setScale 2 1\<rparr>) (Some rect_10x10)
       = exact_setAll 1 0 0 0 (- 1) 50 0 0 1
   \<and> finalMatrix exact (layer_100x50\<lparr>getTransform := exact_setScale 2 1\<rparr>) None
       \<noteq> finalMatrix exact (layer_100x50\<lparr>getTransform := exact_setScale 2 1\<rparr>)
           (Some rect_10x10)
   \<and> exact_mapXY
        (finalMatrix exact (layer_100x50\<lparr>getTransform := exact_setAll 1 0 0 0 1 10 0 0 1\<rparr>)
           None) 0 0 = (0, 60)
   \<and> exact_mapXY (exact_setAll 1 0 0 0 1 10 0 0 1)
        (fst (exact_mapXY (textureMatrix exact layer_100x50) 0 0))
        (snd (exact_mapXY (textureMatrix exact layer_100x50) 0 0)) = (0, 60)
   \<and> exact_mapXY (textureMatrix exact layer_100x50)
        (fst (exact_mapXY (exact_setAll 1 0 0 0 1 10 0 0 1) 0 0))
        (snd (exact_mapXY (exact_setAll 1 0 0 0 1 10 0 0 1) 0 0)) = (0, 40)"
proof -
  let ?s = "layer_100x50\<lparr>getTransform := exact_setScale 2 1\<rparr>"
  let ?t = "layer_100x50\<lparr>getTransform := exact_setAll 1 0 0 0 1 10 0 0 1\<rparr>"
  have u: "\<forall>m. Concat exact (getTransform layer_100x50) m = m"
    by (simp add: layer_100x50_def exact_sel exact_Concat_I_left)
  have t: "textureMatrix exact layer_100x50 = exact_setAll 1 0 0 0 (- 1) 50 0 0 1"
    by (simp add: textureMatrix_def invertOrSelf_def preinv_100x50) (simp add: exact_defs)
  have ts: "textureMatrix exact ?s = exact_setAll 1 0 0 0 (- 1) 50 0 0 1"
    and tt: "textureMatrix exact ?t = exact_setAll 1 0 0 0 (- 1) 50 0 0 1"
    by (simp_all add: textureMatrix_ignores_transform t)
  have cs: "Concat exact (exact_setScale 2 1) (exact_setAll 1 0 0 0 (- 1) 50 0 0 1)
      = exact_setAll 2 0 0 0 (- 1) 50 0 0 1"
    and ct: "Concat exact (exact_setAll 1 0 0 0 1 10 0 0 1)
        (exact_setAll 1 0 0 0 (- 1) 50 0 0 1) = exact_setAll 1 0 0 0 (- 1) 60 0 0 1"
    by (simp_all add: exact_defs)
  have ne: "exact_setAll 2 0 0 0 (- 1) 50 0 0 1 \<noteq> exact_setAll 1 0 0 0 (- 1) 50 0 0 1"
    by (simp add: exact_defs)
  from final_matrix_by_mode [of exact layer_100x50 rect_10x10] u
  have a: "finalMatrix exact layer_100x50 None
      = finalMatrix exact layer_100x50 (Some rect_10x10)"
    by blast
  from final_matrix_by_mode [of exact ?s rect_10x10]
  have b: "finalMatrix exact ?s None = exact_setAll 2 0 0 0 (- 1) 50 0 0 1"
    and c: "finalMatrix exact ?s (Some rect_10x10) = exact_setAll 1 0 0 0 (- 1) 50 0 0 1"
    by (simp_all add: ts cs)
  from final_matrix_by_mode [of exact ?t rect_10x10]
  have d: "finalMatrix exact ?t None = exact_setAll 1 0 0 0 (- 1) 60 0 0 1"
    by (simp add: tt ct)
  have m: "exact_mapXY (exact_setAll 1 0 0 0 (- 1) 60 0 0 1) 0 0 = (0, 60)"
    "exact_mapXY (exact_setAll 1 0 0 0 (- 1) 50 0 0 1) 0 0 = (0, 50)"
    "exact_mapXY (exact_setAll 1 0 0 0 1 10 0 0 1) 0 50 = (0, 60)"
    "exact_mapXY (exact_setAll 1 0 0 0 1 10 0 0 1) 0 0 = (0, 10)"
    "exact_mapXY (exact_setAll 1 0 0 0 (- 1) 50 0 0 1) 0 10 = (0, 40)"
    by (simp_all add: exact_defs)
  show ?thesis
    by (simp add: a b c d ne t m)
qed

text \<open>The claim as stated, that the two final matrices differ exactly when the placement
  transform is not the identity, fails for the singular layer placed by a horizontal scaling
  by two: the inversion fails, the texture matrix kept in its place has a zero first row, and
  the scaling, which multiplies that row alone, leaves the product equal to it.\<close>

theorem final_matrix_same_counterexample:
  "getImage scaled_singular_layer = Some 7
   \<and> 0 < getWidth scaled_singular_layer \<and> 0 < getHeight scaled_singular_layer
   \<and> getTransform scaled_singular_layer \<noteq> SkMatrix_I
   \<and> finalMatrix exact scaled_singular_layer (Some rect_10x10)
       = finalMatrix exact scaled_singular_layer None"
proof -
  have t: "textureMatrixInv exact scaled_singular_layer = exact_setAll 0 0 0 0 (- 1) 50 0 0 1"
    by (simp add: scaled_singular_layer_def example_defs layer_defs exact_defs Let_def)
  have a: "exact_invert (exact_setAll 0 0 0 0 (- 1) 50 0 0 1) = None"
    by (simp add: exact_defs)
  have b: "textureMatrix exact scaled_singular_layer = exact_setAll 0 0 0 0 (- 1) 50 0 0 1"
    by (simp add: textureMatrix_def invertOrSelf_def t) (simp add: exact_def a)
  have c: "getTransform scaled_singular_layer = exact_setScale 2 1"
    by (simp add: scaled_singular_layer_def)
  have d: "exact_Concat (exact_setScale 2 1) (exact_setAll 0 0 0 0 (- 1) 50 0 0 1)
      = exact_setAll 0 0 0 0 (- 1) 50 0 0 1"
    by (simp add: exact_defs)
  have e: "exact_setScale 2 1 \<noteq> SkMatrix_I"
    by (simp add: exact_defs)
  show ?thesis
    by (simp add: finalMatrix_def b c e) (simp add: exact_def d scaled_singular_layer_def example_defs)
qed

subsection \<open>The round trip of the 100 by 50 layer\<close>

text \<open>Claim C8. For a layer of width 100 and height 50 whose placement and texture
  transforms are the identity, with the Skia operations in exact arithmetic: the
  pre-inversion matrix is \<open>[[1,0,0],[0,-1,50],[0,0,1]]\<close>, it is its own inverse, the inversion
  succeeds and returns it, so the texture matrix is that same matrix, is not the identity,
  maps \<open>(0,0)\<close> to \<open>(0,50)\<close> and every \<open>(x,y)\<close> to \<open>(x, 50 - y)\<close>, the flip about
  \<open>y = 25\<close>; without a destination rectangle it is the final matrix.\<close>

theorem identity_texture_transform_flips:
  assumes "getTexTransform layer = SkMatrix_I"
    and "getTransform layer = SkMatrix_I"
    and "getWidth layer = 100" and "getHeight layer = 50"
  shows "textureMatrixInv exact layer = exact_setAll 1 0 0 0 (- 1) 50 0 0 1
    \<and> exact_Concat (textureMatrixInv exact layer) (textureMatrixInv exact layer) = SkMatrix_I
    \<and> invert exact (textureMatrixInv exact layer) = Some (textureMatrixInv exact layer)
    \<and> textureMatrix exact layer = exact_setAll 1 0 0 0 (- 1) 50 0 0 1
    \<and> textureMatrix exact layer \<noteq> SkMatrix_I
    \<and> exact_mapXY (textureMatrix exact layer) 0 0 = (0, 50)
    \<and> exact_mapXY (textureMatrix exact layer) x y = (x, 50 - y)
    \<and> finalMatrix exact layer None = textureMatrix exact layer"
proof -
  have p: "textureMatrixInv exact layer = exact_setAll 1 0 0 0 (- 1) 50 0 0 1"
    using assms by (simp add: layer_defs exact_defs Let_def)
  have i: "invert exact (exact_setAll 1 0 0 0 (- 1) 50 0 0 1)
      = Some (exact_setAll 1 0 0 0 (- 1) 50 0 0 1)"
    by (simp add: exact_defs)
  have t: "textureMatrix exact layer = exact_setAll 1 0 0 0 (- 1) 50 0 0 1"
    by (simp add: textureMatrix_def invertOrSelf_def p i)
  have s: "exact_Concat (exact_setAll 1 0 0 0 (- 1) 50 0 0 1)
      (exact_setAll 1 0 0 0 (- 1) 50 0 0 1) = SkMatrix_I"
    by (simp add: exact_defs)
  have n: "exact_setAll 1 0 0 0 (- 1) 50 0 0 1 \<noteq> SkMatrix_I"
    by (simp add: exact_defs)
  have m: "exact_mapXY (exact_setAll 1 0 0 0 (- 1) 50 0 0 1) u v = (u, 50 - v)" for u v
    by (simp add: exact_defs)
  have f: "finalMatrix exact layer None = textureMatrix exact layer"
    using assms(2) by (simp add: finalMatrix_def exact_def exact_Concat_I_left)
  show ?thesis
    by (simp add: p i t s n m f)
qed

theorem identity_texture_transform_flips_witness:
  "textureMatrix exact layer_100x50 = exact_setAll 1 0 0 0 (- 1) 50 0 0 1
   \<and> exact_mapXY (textureMatrix exact layer_100x50) 0 0 = (0, 50)"
proof -
  have "getTexTransform layer_100x50 = SkMatrix_I" "getTransform layer_100x50 = SkMatrix_I"
    "getWidth layer_100x50 = 100" "getHeight layer_100x50 = 50"
    by (simp_all add: example_defs)
  from identity_texture_transform_flips [OF this, of 0 0] show ?thesis
    by blast
qed

subsection \<open>Save and restore\<close>

text \<open>Claim C5. With a context and an image: when the final matrix is the identity the
  canvas receives one draw call and nothing else, so no save and no restore; when it is not,
  the canvas receives exactly save, concat of the final matrix, one draw call, restore, in
  this order, so the one save is matched by the one restore before the call returns.\<close>

theorem DrawLayer_save_restore_paired:
  assumes "context \<noteq> None" and "getImage layer = Some img"
  shows "\<exists>d. is_draw d \<and>
           emitted canvas (fst (DrawLayer sk context canvas layer dstRect)) =
             (if isIdentity sk (finalMatrix sk layer dstRect) then [d]
              else [Save, ConcatMatrix (finalMatrix sk layer dstRect), d, Restore])"
proof (cases dstRect)
  case None
  with assms show ?thesis
    by (simp add: DrawLayer_placed emitted_def finalMatrix_def Let_def)
next
  case (Some dst)
  with assms show ?thesis
    by (simp add: DrawLayer_readback emitted_def finalMatrix_def Let_def)
qed

theorem DrawLayer_save_restore_paired_witness:
  "(\<exists>d. is_draw d \<and>
      emitted empty_canvas (fst (DrawLayer exact (Some 1) empty_canvas flipped_layer None)) = [d])
   \<and> (\<exists>d. is_draw d \<and>
      emitted empty_canvas (fst (DrawLayer exact (Some 1) empty_canvas layer_100x50 None)) =
        [Save, ConcatMatrix (exact_setAll 1 0 0 0 (- 1) 50 0 0 1), d, Restore])"
proof -
  have a: "getImage flipped_layer = Some 7" and b: "getImage layer_100x50 = Some 7"
    by (simp_all add: flipped_layer_def example_defs)
  have c: "isIdentity exact (finalMatrix exact flipped_layer None)"
    by (simp add: final_flipped) (simp add: exact_def exact_isIdentity_def)
  have d: "\<not> isIdentity exact (finalMatrix exact layer_100x50 None)"
    by (simp add: final_100x50) (simp add: exact_defs)
  show ?thesis
    using DrawLayer_save_restore_paired [of "Some 1" flipped_layer 7 empty_canvas exact None, OF _ a]
      DrawLayer_save_restore_paired [of "Some 1" layer_100x50 7 empty_canvas exact None, OF _ b]
      c d
    by (simp add: final_100x50)
qed

subsection \<open>Matrices that cannot be inverted\<close>

text \<open>Claim C6. With a context and an image, when the inversion of the pre-inversion
  texture matrix fails (in exact arithmetic: on a zero determinant), \<^verbatim>\<open>DrawLayer\<close> does
  not return early: the texture matrix is the un-inverted matrix; with a destination
  rectangle the second inversion, of that same matrix, fails as well and the rectangles are
  mapped by the un-inverted matrix; in both modes one draw call is issued, between save,
  concat and restore unless the matrix is the identity, and the call returns true.\<close>

theorem DrawLayer_singular_fallback:
  assumes "context \<noteq> None" and "getImage layer = Some img"
    and "invert sk (textureMatrixInv sk layer) = None"
  shows "textureMatrix sk layer = textureMatrixInv sk layer
    \<and> DrawLayer sk context canvas layer (Some dst) =
        (let matrix = textureMatrixInv sk layer;
             d = DrawImageRect img
                   (mapRect sk matrix (MakeIWH sk (getWidth layer) (getHeight layer)))
                   (mapRect sk matrix dst) (layerPaint layer) kFast_SrcRectConstraint
         in (canvas\<lparr>calls := calls canvas @
               (if isIdentity sk matrix then [d] else [Save, ConcatMatrix matrix, d, Restore])\<rparr>,
             True))
    \<and> DrawLayer sk context canvas layer None =
        (let matrix = Concat sk (getTransform layer) (textureMatrixInv sk layer);
             d = DrawImage img (SkIntToScalar sk 0) (SkIntToScalar sk 0) (layerPaint layer)
         in (canvas\<lparr>calls := calls canvas @
               (if isIdentity sk matrix then [d] else [Save, ConcatMatrix matrix, d, Restore])\<rparr>,
             True))"
proof -
  have t: "textureMatrix sk layer = textureMatrixInv sk layer"
    using assms(3) by (simp add: textureMatrix_def invertOrSelf_def)
  have i: "invertOrSelf sk (textureMatrixInv sk layer) = textureMatrixInv sk layer"
    using assms(3) by (simp add: invertOrSelf_def)
  show ?thesis
    using assms(1,2) by (simp add: DrawLayer_readback DrawLayer_placed t i)
qed

theorem DrawLayer_singular_fallback_witness:
  "determinant (textureMatrixInv exact singular_layer) = 0
   \<and> textureMatrix exact singular_layer = exact_setAll 0 0 0 0 (- 1) 50 0 0 1
   \<and> DrawLayer exact (Some 1) empty_canvas singular_layer (Some rect_10x10) =
       (empty_canvas\<lparr>calls :=
          [Save, ConcatMatrix (exact_setAll 0 0 0 0 (- 1) 50 0 0 1),
           DrawImageRect 7 \<lparr>fLeft = 0, fTop = 0, fRight = 0, fBottom = 50\<rparr>
             \<lparr>fLeft = 0, fTop = 40, fRight = 0, fBottom = 50\<rparr> (layerPaint singular_layer)
             kFast_SrcRectConstraint,
           Restore]\<rparr>, True)
   \<and> snd (DrawLayer exact (Some 1) empty_canvas singular_layer None)"
proof -
  have a: "getImage singular_layer = Some 7"
    by (simp add: example_defs)
  have b: "invert exact (textureMatrixInv exact singular_layer) = None"
    by (simp add: singular_preinv) (simp add: exact_defs)
  have c: "determinant (textureMatrixInv exact singular_layer) = 0"
    by (simp add: singular_preinv) (simp add: exact_defs)
  have d: "\<not> isIdentity exact (exact_setAll 0 0 0 0 (- 1) 50 0 0 1)"
    by (simp add: exact_defs)
  have e: "mapRect exact (exact_setAll 0 0 0 0 (- 1) 50 0 0 1) (MakeIWH exact 100 50)
             = \<lparr>fLeft = 0, fTop = 0, fRight = 0, fBottom = 50\<rparr>"
    by (simp add: exact_defs)
  have f: "mapRect exact (exact_setAll 0 0 0 0 (- 1) 50 0 0 1) rect_10x10
             = \<lparr>fLeft = 0, fTop = 40, fRight = 0, fBottom = 50\<rparr>"
    by (simp add: exact_defs rect_10x10_def)
  have g: "getWidth singular_layer = 100" "getHeight singular_layer = 50"
    by (simp_all add: example_defs)
  show ?thesis
    using DrawLayer_singular_fallback [of "Some 1" singular_layer 7 exact empty_canvas rect_10x10,
        OF _ a b] c d e f g
    by (simp add: singular_preinv Let_def empty_canvas_def)
qed

subsection \<open>The draw call\<close>

text \<open>Claim C7. With a context and an image, the one draw call the canvas receives carries
  a paint whose alpha is the layer's alpha, whose blend mode is the layer's mode, whose
  colour filter is the layer's \<^verbatim>\<open>getColorSpaceWithFilter()\<close> and whose filter quality is
  \<^verbatim>\<open>kLow\<close> exactly when the layer forces filtering (the default \<^verbatim>\<open>kNone\<close> otherwise). With
  a destination rectangle the call is \<^verbatim>\<open>drawImageRect\<close> with the fast constraint, its source
  rectangle \<^verbatim>\<open>SkRect::MakeIWH(width, height)\<close>, that is \<open>[0,0,width,height]\<close>, and its
  destination rectangle the caller's, both mapped by the inverse of the final matrix, or by
  the final matrix itself when that cannot be inverted. Without one the call is
  \<^verbatim>\<open>drawImage\<close> of the whole image at \<open>(0,0)\<close>.\<close>

theorem DrawLayer_draw_call:
  assumes "context \<noteq> None" and "getImage layer = Some img"
  shows "filter is_draw (emitted canvas (fst (DrawLayer sk context canvas layer dstRect))) =
    [let paint = \<lparr>paintAlpha = getAlpha layer, paintBlendMode = getMode layer,
                   paintColorFilter = getColorSpaceWithFilter layer,
                   paintFilterQuality = (if getForceFilter layer then kLow_SkFilterQuality
                                         else kNone_SkFilterQuality)\<rparr>
     in case dstRect of
          None \<Rightarrow> DrawImage img (SkIntToScalar sk 0) (SkIntToScalar sk 0) paint
        | Some dst \<Rightarrow>
            let matrix = finalMatrix sk layer dstRect;
                matrixInv = (case invert sk matrix of Some m \<Rightarrow> m | None \<Rightarrow> matrix)
            in DrawImageRect img
                 (mapRect sk matrixInv (MakeIWH sk (getWidth layer) (getHeight layer)))
                 (mapRect sk matrixInv dst) paint kFast_SrcRectConstraint]"
proof (cases dstRect)
  case None
  with assms show ?thesis
    by (simp add: DrawLayer_placed emitted_def Let_def layerPaint_fields)
next
  case (Some dst)
  with assms show ?thesis
    by (simp add: DrawLayer_readback emitted_def Let_def layerPaint_fields finalMatrix_def
        invertOrSelf_def)
qed

theorem DrawLayer_draw_call_witness:
  "filter is_draw
     (emitted empty_canvas
        (fst (DrawLayer exact (Some 1) empty_canvas layer_100x50 (Some rect_10x10))))
     = [DrawImageRect 7 \<lparr>fLeft = 0, fTop = 0, fRight = 100, fBottom = 50\<rparr>
          \<lparr>fLeft = 0, fTop = 40, fRight = 10, fBottom = 50\<rparr>
          \<lparr>paintAlpha = 128, paintBlendMode = kSrcOver, paintColorFilter = None,
             paintFilterQuality = kLow_SkFilterQuality\<rparr>
          kFast_SrcRectConstraint]
   \<and> filter is_draw
     (emitted empty_canvas (fst (DrawLayer exact (Some 1) empty_canvas layer_100x50 None)))
     = [DrawImage 7 0 0
          \<lparr>paintAlpha = 128, paintBlendMode = kSrcOver, paintColorFilter = None,
             paintFilterQuality = kLow_SkFilterQuality\<rparr>]"
proof -
  have a: "getImage layer_100x50 = Some 7"
    by (simp add: example_defs)
  have m: "finalMatrix exact layer_100x50 (Some rect_10x10) = exact_setAll 1 0 0 0 (- 1) 50 0 0 1"
    by (simp add: finalMatrix_def textureMatrix_def invertOrSelf_def preinv_100x50)
      (simp add: exact_defs)
  have i: "invert exact (exact_setAll 1 0 0 0 (- 1) 50 0 0 1)
      = Some (exact_setAll 1 0 0 0 (- 1) 50 0 0 1)"
    by (simp add: exact_defs)
  have s: "mapRect exact (exact_setAll 1 0 0 0 (- 1) 50 0 0 1) (MakeIWH exact 100 50)
      = \<lparr>fLeft = 0, fTop = 0, fRight = 100, fBottom = 50\<rparr>"
    by (simp add: exact_defs)
  have d: "mapRect exact (exact_setAll 1 0 0 0 (- 1) 50 0 0 1) rect_10x10
      = \<lparr>fLeft = 0, fTop = 40, fRight = 10, fBottom = 50\<rparr>"
    by (simp add: exact_defs rect_10x10_def)
  have f: "getWidth layer_100x50 = 100" "getHeight layer_100x50 = 50"
    "getAlpha layer_100x50 = 128" "getMode layer_100x50 = kSrcOver"
    "getColorSpaceWithFilter layer_100x50 = None" "getForceFilter layer_100x50"
    by (simp_all add: example_defs)
  have z: "SkIntToScalar exact 0 = 0"
    by (simp add: exact_sel)
  show ?thesis
    using DrawLayer_draw_call [of "Some 1" layer_100x50 7 empty_canvas exact "Some rect_10x10",
        OF _ a]
      DrawLayer_draw_call [of "Some 1" layer_100x50 7 empty_canvas exact None, OF _ a]
    by (simp add: m i s d f z)
qed

subsection \<open>No state between calls\<close>

text \<open>Claim C9. The value returned and the sequence of calls the canvas receives are
  functions of the context, the layer and the destination rectangle alone: they are the same
  from any two states of the canvas, and the call does nothing to the canvas but append
  that sequence. So a second call with the same inputs, made after the first, sends the
  canvas the same sequence again and returns the same value.\<close>

theorem DrawLayer_independent_of_canvas_state:
  "snd (DrawLayer sk context canvas layer dstRect) = snd (DrawLayer sk context canvas' layer dstRect)
   \<and> emitted canvas (fst (DrawLayer sk context canvas layer dstRect))
       = emitted canvas' (fst (DrawLayer sk context canvas' layer dstRect))
   \<and> fst (DrawLayer sk context canvas layer dstRect)
       = canvas\<lparr>calls := calls canvas
           @ emitted canvas (fst (DrawLayer sk context canvas layer dstRect))\<rparr>"
  by (cases dstRect; cases "getImage layer"; cases "context")
    (simp_all add: DrawLayer_null_context DrawLayer_no_image DrawLayer_readback
      DrawLayer_placed Let_def emitted_def)

theorem DrawLayer_independent_of_canvas_state_witness:
  "snd (DrawLayer exact (Some 1) empty_canvas layer_100x50 None)
     = snd (DrawLayer exact (Some 1)
          (fst (DrawLayer exact (Some 1) empty_canvas layer_100x50 None)) layer_100x50 None)
   \<and> emitted empty_canvas (fst (DrawLayer exact (Some 1) empty_canvas layer_100x50 None))
     = emitted (fst (DrawLayer exact (Some 1) empty_canvas layer_100x50 None))
         (fst (DrawLayer exact (Some 1)
            (fst (DrawLayer exact (Some 1) empty_canvas layer_100x50 None)) layer_100x50 None))"
  using DrawLayer_independent_of_canvas_state [of exact "Some 1" empty_canvas layer_100x50 None
      "fst (DrawLayer exact (Some 1) empty_canvas layer_100x50 None)"]
  by blast

subsection \<open>\<^verbatim>\<open>onDraw\<close>\<close>

text \<open>Claim C10. \<^verbatim>\<open>onDraw\<close> leaves the canvas untouched when the backing layer is null;
  otherwise its effect is that of \<^verbatim>\<open>DrawLayer\<close> on the canvas's own context, the canvas,
  the layer and no destination rectangle. Whatever the backing layer, none of the calls the
  canvas receives is a \<^verbatim>\<open>drawImageRect\<close>: the readback branch is not reached.\<close>

theorem onDraw_draws_without_dstRect:
  "onDraw sk None canvas = canvas
   \<and> onDraw sk (Some layer) canvas = fst (DrawLayer sk (getGrContext canvas) canvas layer None)
   \<and> (\<forall>c \<in> set (emitted canvas (onDraw sk backingLayer canvas)). \<not> is_drawImageRect c)"
proof -
  have "\<not> is_drawImageRect c"
    if "c \<in> set (emitted canvas (fst (DrawLayer sk (getGrContext canvas) canvas l None)))"
    for c l
    using that
    by (cases "getImage l"; cases "getGrContext canvas")
      (auto simp: DrawLayer_null_context DrawLayer_no_image DrawLayer_placed Let_def emitted_def
        split: if_splits)
  then show ?thesis
    by (cases backingLayer) (auto simp: onDraw_def emitted_def)
qed

theorem onDraw_draws_without_dstRect_witness:
  "onDraw exact None empty_canvas = empty_canvas
   \<and> calls (onDraw exact (Some layer_100x50) empty_canvas)
       = [Save, ConcatMatrix (exact_setAll 1 0 0 0 (- 1) 50 0 0 1),
          DrawImage 7 0 0 (layerPaint layer_100x50), Restore]"
proof -
  have a: "getImage layer_100x50 = Some 7" and g: "getGrContext empty_canvas = Some 1"
    and e: "calls empty_canvas = []"
    by (simp_all add: example_defs)
  have n: "\<not> isIdentity exact (exact_setAll 1 0 0 0 (- 1) 50 0 0 1)"
    by (simp add: exact_defs)
  have z: "SkIntToScalar exact 0 = 0"
    by (simp add: exact_sel)
  have t: "Concat exact (getTransform layer_100x50) (textureMatrix exact layer_100x50)
      = exact_setAll 1 0 0 0 (- 1) 50 0 0 1"
    using final_100x50 by (simp add: finalMatrix_def)
  have d: "DrawLayer exact (Some 1) empty_canvas layer_100x50 None =
      (empty_canvas\<lparr>calls := [Save, ConcatMatrix (exact_setAll 1 0 0 0 (- 1) 50 0 0 1),
          DrawImage 7 0 0 (layerPaint layer_100x50), Restore]\<rparr>, True)"
    using a by (simp add: DrawLayer_placed t n e z)
  from onDraw_draws_without_dstRect [of exact empty_canvas layer_100x50 None]
  have "onDraw exact None empty_canvas = empty_canvas"
    and "onDraw exact (Some layer_100x50) empty_canvas
      = fst (DrawLayer exact (getGrContext empty_canvas) empty_canvas layer_100x50 None)"
    by blast+
  then show ?thesis
    by (simp add: g d del: One_nat_def)
qed

end
